theory Spec2Isabelle
  imports Main "HOL-Library.Word"
begin

section \<open>JavaScript values used by the chat endpoint\<close>

text \<open>
  A JavaScript string is a sequence of UTF-16 code units. The literals of the source are
  ASCII and are written with \<open>lit\<close>.
\<close>

type_synonym js_string = "16 word list"

definition lit :: "string \<Rightarrow> js_string" where
  "lit s = map (\<lambda>c. of_nat (of_char c)) s"

text \<open>
  \<open>String.prototype.trim\<close> removes leading and trailing code units that are WhiteSpace or
  LineTerminator in ECMAScript: TAB, VT, FF, SP, NBSP, ZWNBSP, the other space separators
  (U+1680, U+2000 to U+200A, U+202F, U+205F, U+3000), LF, CR, LS and PS.
\<close>

definition isWhiteSpace :: "16 word \<Rightarrow> bool" where
  "isWhiteSpace c \<longleftrightarrow>
     c \<in> {0x0009, 0x000A, 0x000B, 0x000C, 0x000D, 0x0020, 0x00A0, 0x1680,
          0x2028, 0x2029, 0x202F, 0x205F, 0x3000, 0xFEFF}
     \<or> (0x2000 \<le> c \<and> c \<le> 0x200A)"

definition trim :: "js_string \<Rightarrow> js_string" where
  "trim s = rev (dropWhile isWhiteSpace (rev (dropWhile isWhiteSpace s)))"

text \<open>\<open>Array.prototype.join\<close> on an array of strings.\<close>

fun join :: "js_string \<Rightarrow> js_string list \<Rightarrow> js_string" where
  "join sep [] = []"
| "join sep [x] = x"
| "join sep (x # y # ys) = x @ sep @ join sep (y # ys)"

text \<open>The decimal rendering of a non-negative integer inside a template literal.\<close>

fun dec :: "nat \<Rightarrow> js_string" where
  "dec n = (if n < 10 then [of_nat (48 + n)] else dec (n div 10) @ [of_nat (48 + n mod 10)])"

declare dec.simps [simp del]

text \<open>
  A string-valued property that may be absent (\<open>None\<close> is \<open>undefined\<close>). \<open>falsy\<close> is
  JavaScript's \<open>!v\<close> on it, and \<open>template_string\<close> is what \<open>${v}\<close> renders.
\<close>

definition falsy :: "js_string option \<Rightarrow> bool" where
  "falsy v \<longleftrightarrow> (case v of None \<Rightarrow> True | Some s \<Rightarrow> s = [])"

definition template_string :: "js_string option \<Rightarrow> js_string" where
  "template_string v = (case v of None \<Rightarrow> lit ''undefined'' | Some s \<Rightarrow> s)"

text \<open>
  A thrown value, as \<open>catch (e: any)\<close> receives it: \<open>null\<close>, \<open>undefined\<close>, or any other
  value, of which the code reads only the property \<open>message\<close> (\<open>None\<close> when the value
  has none, as a thrown string; an \<open>Error\<close> object has a string there). Reading a
  property of \<open>null\<close> or \<open>undefined\<close> throws a \<open>TypeError\<close>; its message is the text
  of V8, the engine of the edge runtime the route declares.
\<close>

datatype js_thrown = ThrownNull | ThrownUndefined | Thrown "js_string option"

definition TypeError_reading :: "js_string \<Rightarrow> js_string \<Rightarrow> js_thrown" where
  "TypeError_reading v p =
     Thrown (Some (lit ''Cannot read properties of '' @ v @ lit '' (reading '' @ [0x27] @ p
                   @ [0x27] @ lit '')''))"

text \<open>\<open>e.message\<close> on a caught value.\<close>

definition read_message :: "js_thrown \<Rightarrow> js_thrown + js_string option" where
  "read_message e =
     (case e of
        ThrownNull \<Rightarrow> Inl (TypeError_reading (lit ''null'') (lit ''message''))
      | ThrownUndefined \<Rightarrow> Inl (TypeError_reading (lit ''undefined'') (lit ''message''))
      | Thrown m \<Rightarrow> Inr m)"

section \<open>Messages\<close>

text \<open>
  The wire-format message of the client. The handler guards against a missing
  \<open>content\<close>, so the field is optional here.
\<close>

record vercel_message =
  role :: js_string
  content :: "js_string option"

text \<open>The agent's internal messages; the argument is the \<open>content\<close> field.\<close>

datatype base_message =
    HumanMessage "js_string option"
  | AIMessage "js_string option"

record agent_input =
  input :: js_string
  chat_history :: "base_message list"

section \<open>Effects\<close>

text \<open>
  What a run does besides returning: console output and calls to the collaborators
  (the retriever of the document store, the construction of the agent executor and its
  \<open>streamEvents\<close>), in the order in which they happen.
\<close>

datatype effect =
    ConsoleLog js_string
  | ConsoleWarn js_string
  | ConsoleError js_string js_thrown
  | GetRelevantDocuments js_string
  | BuildAgentExecutor
  | StreamEvents agent_input

section \<open>lib/langchain\_message\_converter.ts\<close>

definition convertMessage :: "vercel_message \<Rightarrow> base_message \<times> effect list" where
  "convertMessage m =
     (if role m = lit ''user'' then (HumanMessage (content m), [])
      else if role m = lit ''assistant'' then (AIMessage (content m), [])
      else (HumanMessage (Some (lit ''Unknown role: '' @ template_string (content m))),
            [ConsoleWarn (lit ''Unknown message role during conversion: '' @ role m)]))"

definition convertVercelMessagesToLangChainMessages ::
    "vercel_message list \<Rightarrow> base_message list \<times> effect list" where
  "convertVercelMessagesToLangChainMessages ms =
     (map (\<lambda>m. fst (convertMessage m)) ms, concat (map (\<lambda>m. snd (convertMessage m)) ms))"

section \<open>The search tool of app/api/chat/route.ts\<close>

record doc_metadata =
  source :: "js_string option"

record document =
  pageContent :: js_string
  metadata :: "doc_metadata option"

type_synonym retriever = "js_string \<Rightarrow> js_thrown + document list"

datatype tool_input = InputString js_string | InputObject js_string

definition query_of :: "tool_input \<Rightarrow> js_string" where
  "query_of i = (case i of InputString s \<Rightarrow> s | InputObject q \<Rightarrow> q)"

definition NO_QUERY_ERROR :: js_string where
  "NO_QUERY_ERROR =
     lit ''Tool Error: No query provided. Please provide a search query for the knowledge base.''"

definition NOT_FOUND :: js_string where
  "NOT_FOUND = lit ''No relevant information found in the knowledge base for that query.''"

definition FOUND_HEADER :: js_string where
  "FOUND_HEADER = lit ''Found the following information in the knowledge base:\<newline>''"

definition DELIMITER :: js_string where
  "DELIMITER = lit ''\<newline>\<newline>---\<newline>''"

definition SEARCH_ERROR_PREFIX :: js_string where
  "SEARCH_ERROR_PREFIX =
     lit ''Tool Error: An error occurred while searching the knowledge base: ''"

text \<open>\<open>doc.metadata?.source || 'Unknown Source'\<close>\<close>

definition source_or_unknown :: "document \<Rightarrow> js_string" where
  "source_or_unknown d =
     (case metadata d of
        None \<Rightarrow> lit ''Unknown Source''
      | Some md \<Rightarrow> if falsy (source md) then lit ''Unknown Source'' else template_string (source md))"

definition format_doc :: "document \<Rightarrow> js_string" where
  "format_doc d =
     lit ''Source: '' @ source_or_unknown d @ lit ''\<newline>Content: '' @ pageContent d"

text \<open>The \<open>try\<close> block of the tool function: \<open>Inl\<close> is a thrown error.\<close>

definition search_try :: "retriever \<Rightarrow> js_string \<Rightarrow> (js_thrown + js_string) \<times> effect list" where
  "search_try retriever query =
     (let called = [ConsoleLog (lit ''Tool 'search_knowledge_base' called with query: \"''
                                 @ query @ lit ''\"''),
                    GetRelevantDocuments query]
      in case retriever query of
           Inl e \<Rightarrow> (Inl e, called)
         | Inr docs \<Rightarrow>
             (Inr (if length docs = 0 then NOT_FOUND
                   else FOUND_HEADER @ join DELIMITER (map format_doc docs)),
              called @ [ConsoleLog (lit ''Retrieved '' @ dec (length docs)
                                     @ lit '' documents from vector store for query: \"''
                                     @ query @ lit ''\"'')]))"

text \<open>
  The \<open>catch\<close> block of the tool function: it logs the caught value, then reads its
  \<open>message\<close> for the string it returns. That read throws when the value is \<open>null\<close> or
  \<open>undefined\<close>, and nothing catches it.
\<close>

definition search_catch ::
    "js_string \<Rightarrow> js_thrown \<Rightarrow> effect list \<Rightarrow> (js_thrown + js_string) \<times> effect list" where
  "search_catch query error effects =
     (let logged = effects @ [ConsoleError (lit ''Error in 'search_knowledge_base' tool for query \"''
                                            @ query @ lit ''\":'') error]
      in case read_message error of
           Inl typeError \<Rightarrow> (Inl typeError, logged)
         | Inr m \<Rightarrow> (Inr (SEARCH_ERROR_PREFIX @ template_string m), logged))"

text \<open>
  \<open>createSearchTool retriever\<close> is the \<open>func\<close> of the tool that
  \<open>createSearchTool(retriever)\<close> builds: the guard, the \<open>try\<close> block and its \<open>catch\<close>.
  \<open>Inl\<close> is a value thrown to the caller.
\<close>

definition createSearchTool ::
    "retriever \<Rightarrow> tool_input \<Rightarrow> (js_thrown + js_string) \<times> effect list" where
  "createSearchTool retriever i =
     (let query = query_of i
      in if query = [] \<or> trim query = [] then (Inr NO_QUERY_ERROR, [])
         else case search_try retriever query of
                (Inr result, effects) \<Rightarrow> (Inr result, effects)
              | (Inl error, effects) \<Rightarrow> search_catch query error effects)"

text \<open>Occurrences of a pattern in a text, counted by starting position.\<close>

fun count_occurrences :: "'a list \<Rightarrow> 'a list \<Rightarrow> nat" where
  "count_occurrences p [] = (if p = [] then 1 else 0)"
| "count_occurrences p (x # xs) =
     (if take (length p) (x # xs) = p then 1 else 0) + count_occurrences p xs"

section \<open>The POST handler of app/api/chat/route.ts\<close>

text \<open>
  The value that \<open>await req.json()\<close> gives when the body parses; the handler does not
  type it. It is \<open>null\<close>, or a value without fields of its own (a number, a string, a
  boolean, an array: reading \<open>messages\<close> gives \<open>undefined\<close>), or an object. The
  \<open>messages\<close> of an object (\<open>None\<close> when absent or \<open>null\<close>) is an array of messages,
  as the annotation of \<open>vercelMessages\<close> says. The three configuration values are read
  from \<open>process.env\<close>, where each may be absent.
\<close>

record chat_request =
  messages :: "vercel_message list option"

datatype parsed_body = JsonNull | JsonNonObject | JsonObject chat_request

text \<open>\<open>body.messages\<close>\<close>

definition body_messages :: "parsed_body \<Rightarrow> js_thrown + vercel_message list option" where
  "body_messages b =
     (case b of
        JsonNull \<Rightarrow> Inl (TypeError_reading (lit ''null'') (lit ''messages''))
      | JsonNonObject \<Rightarrow> Inr None
      | JsonObject request \<Rightarrow> Inr (messages request))"

record process_env =
  SUPABASE_URL :: "js_string option"
  SUPABASE_ANON_KEY :: "js_string option"
  OPENAI_API_KEY :: "js_string option"

text \<open>
  \<open>JsonError s\<close> is the body \<open>JSON.stringify({ error: s })\<close>; \<open>DataStream\<close> is the
  streamed body.
\<close>

datatype 'ds response_body = JsonError js_string | DataStream 'ds

record 'ds response =
  body :: "'ds response_body"
  status :: nat
  headers :: "(js_string \<times> js_string) list"

text \<open>
  The collaborators. \<open>buildAgentExecutor\<close> stands for the constructions between the
  configuration check and the conversion of the history (store client, embeddings,
  model, vector store, retriever, tool, prompt, agent, executor); it either throws or
  gives the executor, which is used through \<open>streamEvents\<close> only. \<open>Inl\<close> is a thrown
  value.
\<close>

record ('es, 'ds) upstream =
  buildAgentExecutor :: "process_env \<Rightarrow> js_thrown + (agent_input \<Rightarrow> js_thrown + 'es)"
  toDataStream :: "'es \<Rightarrow> 'ds"

text \<open>\<open>ms ?? []\<close>, and \<open>body.messages ?? []\<close> for a body that is an object.\<close>

definition or_empty :: "vercel_message list option \<Rightarrow> vercel_message list" where
  "or_empty ms = (case ms of None \<Rightarrow> [] | Some xs \<Rightarrow> xs)"

definition messages_or_empty :: "chat_request \<Rightarrow> vercel_message list" where
  "messages_or_empty request = or_empty (messages request)"

definition json_error_response :: "js_string \<Rightarrow> nat \<Rightarrow> 'ds response" where
  "json_error_response e st = \<lparr>body = JsonError e, status = st, headers = []\<rparr>"

definition stream_response :: "'ds \<Rightarrow> 'ds response" where
  "stream_response ds =
     \<lparr>body = DataStream ds, status = 200,
      headers = [(lit ''Content-Type'', lit ''text/event-stream''),
                 (lit ''Cache-Control'', lit ''no-cache''),
                 (lit ''Connection'', lit ''keep-alive'')]\<rparr>"

definition missing_env :: "process_env \<Rightarrow> bool" where
  "missing_env env \<longleftrightarrow>
     falsy (SUPABASE_URL env) \<or> falsy (SUPABASE_ANON_KEY env) \<or> falsy (OPENAI_API_KEY env)"

text \<open>
  The handler once the request and the configuration have passed the checks: the
  constructions, the conversion of the history and the start of the agent run.
\<close>

definition run_agent ::
    "process_env \<Rightarrow> ('es, 'ds) upstream \<Rightarrow> vercel_message list \<Rightarrow> js_string
       \<Rightarrow> (js_thrown + 'ds response) \<times> effect list" where
  "run_agent env up vercelMessages currentInput =
     (case buildAgentExecutor up env of
        Inl e \<Rightarrow> (Inl e, [BuildAgentExecutor])
      | Inr agentExecutor \<Rightarrow>
          (let (chatHistory, warnings) =
                 convertVercelMessagesToLangChainMessages (butlast vercelMessages);
               agentInput = \<lparr>input = currentInput, chat_history = chatHistory\<rparr>;
               effects = BuildAgentExecutor # warnings @ [StreamEvents agentInput]
           in (case agentExecutor agentInput of
                 Inl e \<Rightarrow> (Inl e, effects)
               | Inr eventStream \<Rightarrow>
                   (Inr (stream_response (toDataStream up eventStream)), effects))))"

text \<open>
  The \<open>try\<close> block of the handler. The argument \<open>req_json\<close> is the outcome of
  \<open>await req.json()\<close>: \<open>Inl\<close> when it throws, as it does on a body that does not parse.
\<close>

definition POST_try ::
    "process_env \<Rightarrow> ('es, 'ds) upstream \<Rightarrow> js_thrown + parsed_body
       \<Rightarrow> (js_thrown + 'ds response) \<times> effect list" where
  "POST_try env up req_json =
     (case req_json of
        Inl e \<Rightarrow> (Inl e, [])
      | Inr parsed \<Rightarrow>
          (case body_messages parsed of
             Inl typeError \<Rightarrow> (Inl typeError, [])
           | Inr ms \<Rightarrow>
               (let vercelMessages = or_empty ms
                in if length vercelMessages = 0
                   then (Inr (json_error_response (lit ''No messages provided'') 400), [])
                   else
                     (case content (last vercelMessages) of
                        None \<Rightarrow>
                          (Inr (json_error_response (lit ''No current message content found'') 400),
                           [])
                      | Some currentInput \<Rightarrow>
                          (if currentInput = []
                           then (Inr (json_error_response
                                        (lit ''No current message content found'') 400), [])
                           else if missing_env env
                           then (Inr (json_error_response
                                        (lit ''Missing environment variables'') 500), [])
                           else run_agent env up vercelMessages currentInput)))))"

definition OUTER_CATCH :: js_string where
  "OUTER_CATCH = lit ''Chat API Error (Outer Catch in POST):''"

text \<open>
  The \<open>catch\<close> block of the handler: it logs the caught value, then answers 500 with
  \<open>e.message || "An unexpected error occurred in the chat API."\<close>. Reading the message
  of \<open>null\<close> or \<open>undefined\<close> throws, and the handler then throws to its caller.
\<close>

definition POST_catch ::
    "js_thrown \<Rightarrow> effect list \<Rightarrow> (js_thrown + 'ds response) \<times> effect list" where
  "POST_catch e effects =
     (let logged = effects @ [ConsoleError OUTER_CATCH e]
      in case read_message e of
           Inl typeError \<Rightarrow> (Inl typeError, logged)
         | Inr m \<Rightarrow>
             (Inr (json_error_response
                     (if falsy m then lit ''An unexpected error occurred in the chat API.''
                      else template_string m) 500),
              logged))"

definition POST ::
    "process_env \<Rightarrow> ('es, 'ds) upstream \<Rightarrow> js_thrown + parsed_body
       \<Rightarrow> (js_thrown + 'ds response) \<times> effect list" where
  "POST env up req_json =
     (case POST_try env up req_json of
        (Inr resp, effects) \<Rightarrow> (Inr resp, effects)
      | (Inl e, effects) \<Rightarrow> POST_catch e effects)"

section \<open>Concrete inputs\<close>

text \<open>
  A retriever whose store is unreachable, one that rejects with \<open>undefined\<close>, and one that
  returns a fixed list.
\<close>

definition failing_retriever :: retriever where
  "failing_retriever = (\<lambda>query. Inl (Thrown (Some (lit ''fetch failed''))))"

definition rejecting_retriever :: retriever where
  "rejecting_retriever = (\<lambda>query. Inl ThrownUndefined)"

definition fixed_retriever :: "document list \<Rightarrow> retriever" where
  "fixed_retriever docs = (\<lambda>query. Inr docs)"

definition two_docs :: "document list" where
  "two_docs = [\<lparr>pageContent = lit ''Refunds within 30 days.'', metadata = Some \<lparr>source = Some (lit ''a.pdf'')\<rparr>\<rparr>,
               \<lparr>pageContent = lit ''Contact support.'', metadata = Some \<lparr>source = Some (lit ''b.pdf'')\<rparr>\<rparr>]"

definition quoting_doc :: document where
  "quoting_doc = \<lparr>pageContent = lit ''Source: see appendix'', metadata = None\<rparr>"

text \<open>Messages, requests, configurations and collaborators.\<close>

definition assistant_hi :: vercel_message where
  "assistant_hi = \<lparr>role = lit ''assistant'', content = Some (lit ''Hi'')\<rparr>"

definition user_turn :: vercel_message where
  "user_turn = \<lparr>role = lit ''user'', content = Some (lit ''What is our refund policy?'')\<rparr>"

definition tool_turn :: vercel_message where
  "tool_turn = \<lparr>role = lit ''tool'', content = Some (lit ''42'')\<rparr>"

definition full_env :: process_env where
  "full_env = \<lparr>SUPABASE_URL = Some (lit ''https://db.example.co''),
               SUPABASE_ANON_KEY = Some (lit ''anon-key''),
               OPENAI_API_KEY = Some (lit ''sk-key'')\<rparr>"

definition empty_env :: process_env where
  "empty_env = \<lparr>SUPABASE_URL = None, SUPABASE_ANON_KEY = None, OPENAI_API_KEY = None\<rparr>"

definition ready_upstream :: "(unit, unit) upstream" where
  "ready_upstream = \<lparr>buildAgentExecutor = (\<lambda>env. Inr (\<lambda>agentInput. Inr ())),
                     toDataStream = (\<lambda>eventStream. eventStream)\<rparr>"

definition echo_upstream :: "(agent_input, agent_input) upstream" where
  "echo_upstream = \<lparr>buildAgentExecutor = (\<lambda>env. Inr (\<lambda>agentInput. Inr agentInput)),
                    toDataStream = (\<lambda>eventStream. eventStream)\<rparr>"

definition syntax_error :: js_thrown where
  "syntax_error = Thrown (Some (lit ''Unexpected end of JSON input''))"

definition hi_request :: chat_request where
  "hi_request = \<lparr>messages = Some [\<lparr>role = lit ''assistant'', content = Some (lit ''Hi'')\<rparr>, user_turn]\<rparr>"

definition no_messages_request :: chat_request where
  "no_messages_request = \<lparr>messages = Some []\<rparr>"

definition no_content_request :: chat_request where
  "no_content_request = \<lparr>messages = Some [assistant_hi, \<lparr>role = lit ''user'', content = None\<rparr>]\<rparr>"

definition user_request :: chat_request where
  "user_request = \<lparr>messages = Some [user_turn]\<rparr>"

definition no_model_key_env :: process_env where
  "no_model_key_env = \<lparr>SUPABASE_URL = Some (lit ''https://db.example.co''),
                       SUPABASE_ANON_KEY = Some (lit ''anon-key''),
                       OPENAI_API_KEY = None\<rparr>"

definition no_field_request :: chat_request where
  "no_field_request = \<lparr>messages = None\<rparr>"

section \<open>Facts about strings\<close>

lemma trim_eq_Nil_iff: "trim q = [] \<longleftrightarrow> (\<forall>c\<in>set q. isWhiteSpace c)"
proof
  assume "trim q = []"
  then have "dropWhile isWhiteSpace (rev (dropWhile isWhiteSpace q)) = []"
    by (simp add: trim_def)
  then have "\<forall>c\<in>set (dropWhile isWhiteSpace q). isWhiteSpace c"
    by (simp add: dropWhile_eq_Nil_conv)
  moreover have "dropWhile isWhiteSpace q \<noteq> [] \<Longrightarrow> \<not> isWhiteSpace (hd (dropWhile isWhiteSpace q))"
    by (rule hd_dropWhile)
  ultimately have "dropWhile isWhiteSpace q = []"
    by (cases "dropWhile isWhiteSpace q") auto
  then show "\<forall>c\<in>set q. isWhiteSpace c"
    by (simp add: dropWhile_eq_Nil_conv)
next
  assume "\<forall>c\<in>set q. isWhiteSpace c"
  then have blank: "dropWhile isWhiteSpace q = []"
    by (simp add: dropWhile_eq_Nil_conv)
  show "trim q = []"
    unfolding trim_def blank by simp
qed

lemma blank_guard_iff: "(q = [] \<or> trim q = []) \<longleftrightarrow> (\<forall>c\<in>set q. isWhiteSpace c)"
  by (auto simp: trim_eq_Nil_iff)

lemma take_pattern_append:
  assumes "c \<notin> set p"
  shows "take (length p) (zs @ c # ys) = p \<longleftrightarrow> take (length p) zs = p"
proof (cases "length p \<le> length zs")
  case True
  then show ?thesis by simp
next
  case False
  then have "c \<in> set (take (length p) (zs @ c # ys))"
    by (cases "length p - length zs") auto
  with assms have "take (length p) (zs @ c # ys) \<noteq> p" by metis
  moreover from False have "length (take (length p) zs) \<noteq> length p" by simp
  then have "take (length p) zs \<noteq> p" by auto
  ultimately show ?thesis by simp
qed

lemma count_occurrences_sep:
  assumes "c \<notin> set p" and "p \<noteq> []"
  shows "count_occurrences p (xs @ c # ys) = count_occurrences p xs + count_occurrences p ys"
proof (induction xs)
  case Nil
  from assms have "take (length p) (c # ys) \<noteq> p"
    by (cases p) auto
  with assms show ?case by simp
next
  case (Cons x xs)
  have "take (length p) ((x # xs) @ c # ys) = p \<longleftrightarrow> take (length p) (x # xs) = p"
    using assms(1) by (rule take_pattern_append)
  with Cons show ?case by simp
qed

lemma count_occurrences_skip:
  assumes "set sep \<inter> set p = {}" and "p \<noteq> []"
  shows "count_occurrences p (sep @ ys) = count_occurrences p ys"
  using assms(1)
proof (induction sep)
  case Nil
  then show ?case by simp
next
  case (Cons c sep)
  then have "c \<notin> set p" by auto
  then have "count_occurrences p ([] @ c # (sep @ ys)) = count_occurrences p [] + count_occurrences p (sep @ ys)"
    using assms(2) by (rule count_occurrences_sep)
  with Cons assms(2) show ?case by simp
qed

lemma count_occurrences_join:
  assumes "set sep \<inter> set p = {}" and "p \<noteq> []" and "sep \<noteq> []"
  shows "count_occurrences p (join sep xs) = sum_list (map (count_occurrences p) xs)"
proof (induction xs rule: induct_list012)
  case 1
  from assms(2) show ?case by simp
next
  case (2 x)
  show ?case by simp
next
  case (3 x y ys)
  show ?case
  proof (cases sep)
    case Nil
    with assms(3) show ?thesis by simp
  next
    case (Cons c sep')
    with assms(1) have c: "c \<notin> set p" and sep': "set sep' \<inter> set p = {}" by auto
    have "count_occurrences p (join sep (x # y # ys))
            = count_occurrences p (x @ c # (sep' @ join sep (y # ys)))"
      using Cons by simp
    also have "\<dots> = count_occurrences p x + count_occurrences p (sep' @ join sep (y # ys))"
      using c assms(2) by (rule count_occurrences_sep)
    also have "count_occurrences p (sep' @ join sep (y # ys)) = count_occurrences p (join sep (y # ys))"
      using sep' assms(2) by (rule count_occurrences_skip)
    finally show ?thesis using 3 by simp
  qed
qed

lemma count_occurrences_header: "count_occurrences (lit ''Source:'') (lit ''Found the following information in the knowledge base:'') = 0"
  by (simp add: lit_def)

lemma count_format_doc:
  "count_occurrences (lit ''Source:'') (format_doc d) =
     1 + count_occurrences (lit ''Source:'') (source_or_unknown d) + count_occurrences (lit ''Source:'') (pageContent d)"
proof -
  let ?p = "lit ''Source:''"
  have ne: "?p \<noteq> []" by (simp add: lit_def)
  have sp: "32 \<notin> set ?p" by (simp add: lit_def)
  have nl: "10 \<notin> set ?p" by (simp add: lit_def)
  have shape: "format_doc d = ?p @ 32 # (source_or_unknown d @ 10 # (lit ''Content:'' @ 32 # pageContent d))"
    by (simp add: format_doc_def lit_def)
  have "count_occurrences ?p (format_doc d) =
          count_occurrences ?p ?p + (count_occurrences ?p (source_or_unknown d)
            + (count_occurrences ?p (lit ''Content:'') + count_occurrences ?p (pageContent d)))"
    unfolding shape
    by (simp only: count_occurrences_sep [OF sp ne] count_occurrences_sep [OF nl ne])
  moreover have "count_occurrences ?p ?p = 1" by (simp add: lit_def)
  moreover have "count_occurrences ?p (lit ''Content:'') = 0" by (simp add: lit_def)
  ultimately show ?thesis by simp
qed

section \<open>The search tool\<close>

lemma createSearchTool_blank:
  "\<forall>c\<in>set (query_of i). isWhiteSpace c \<Longrightarrow> createSearchTool retriever i = (Inr NO_QUERY_ERROR, [])"
  using blank_guard_iff [of "query_of i"] by (simp add: createSearchTool_def Let_def)

lemma createSearchTool_search:
  "\<exists>c\<in>set (query_of i). \<not> isWhiteSpace c \<Longrightarrow>
     createSearchTool retriever i =
       (case search_try retriever (query_of i) of
          (Inr result, effects) \<Rightarrow> (Inr result, effects)
        | (Inl error, effects) \<Rightarrow> search_catch (query_of i) error effects)"
  using blank_guard_iff [of "query_of i"] by (auto simp: createSearchTool_def Let_def)

lemma createSearchTool_found:
  assumes "\<exists>c\<in>set (query_of i). \<not> isWhiteSpace c" and "retriever (query_of i) = Inr docs"
  shows "fst (createSearchTool retriever i) =
           Inr (if length docs = 0 then NOT_FOUND else FOUND_HEADER @ join DELIMITER (map format_doc docs))"
  using assms(2) by (simp add: createSearchTool_search [OF assms(1)] search_try_def Let_def)

lemma count_occurrences_formatted:
  "count_occurrences (lit ''Source:'') (FOUND_HEADER @ join DELIMITER (map format_doc docs)) =
     length docs + (\<Sum>d\<leftarrow>docs. count_occurrences (lit ''Source:'') (source_or_unknown d)
                              + count_occurrences (lit ''Source:'') (pageContent d))"
proof -
  let ?p = "lit ''Source:''"
  have ne: "?p \<noteq> []" by (simp add: lit_def)
  have nl: "10 \<notin> set ?p" by (simp add: lit_def)
  have sep: "set DELIMITER \<inter> set ?p = {}" by (simp add: DELIMITER_def lit_def)
  have sep_ne: "DELIMITER \<noteq> []" by (simp add: DELIMITER_def lit_def)
  have header: "FOUND_HEADER = lit ''Found the following information in the knowledge base:'' @ [10]"
    by (simp add: FOUND_HEADER_def lit_def)
  have "count_occurrences ?p (FOUND_HEADER @ join DELIMITER (map format_doc docs)) =
          count_occurrences ?p (lit ''Found the following information in the knowledge base:'')
          + count_occurrences ?p (join DELIMITER (map format_doc docs))"
    unfolding header using count_occurrences_sep [OF nl ne] by simp
  also have "\<dots> = (\<Sum>d\<leftarrow>docs. count_occurrences ?p (format_doc d))"
    by (simp add: count_occurrences_header count_occurrences_join [OF sep ne sep_ne] comp_def)
  also have "\<dots> = length docs + (\<Sum>d\<leftarrow>docs. count_occurrences ?p (source_or_unknown d)
                              + count_occurrences ?p (pageContent d))"
    by (induction docs) (simp_all add: count_format_doc)
  finally show ?thesis .
qed

lemma createSearchTool_rejected:
  assumes "\<exists>c\<in>set (query_of i). \<not> isWhiteSpace c" and "retriever (query_of i) = Inl e"
  shows "fst (createSearchTool retriever i) =
           (case e of
              ThrownNull \<Rightarrow> Inl (TypeError_reading (lit ''null'') (lit ''message''))
            | ThrownUndefined \<Rightarrow> Inl (TypeError_reading (lit ''undefined'') (lit ''message''))
            | Thrown m \<Rightarrow> Inr (SEARCH_ERROR_PREFIX @ template_string m))"
  using assms(2)
  by (cases e)
     (simp_all add: createSearchTool_search [OF assms(1)] search_try_def search_catch_def
        read_message_def Let_def)

text \<open>
  The tool function returns a string in every case but one: it throws exactly when
  the query is not blank and the retriever rejects with \<open>null\<close> or \<open>undefined\<close>.
\<close>

lemma createSearchTool_returns_iff:
  "(\<exists>s. fst (createSearchTool retriever i) = Inr s) \<longleftrightarrow>
     \<not> ((\<exists>c\<in>set (query_of i). \<not> isWhiteSpace c) \<and>
        (retriever (query_of i) = Inl ThrownNull \<or> retriever (query_of i) = Inl ThrownUndefined))"
proof (cases "\<forall>c\<in>set (query_of i). isWhiteSpace c")
  case True
  then show ?thesis by (simp add: createSearchTool_blank)
next
  case False
  then have nb: "\<exists>c\<in>set (query_of i). \<not> isWhiteSpace c" by simp
  show ?thesis
  proof (cases "retriever (query_of i)")
    case (Inl e)
    from createSearchTool_rejected [of i retriever e, OF nb Inl] nb Inl show ?thesis
      by (cases e) (simp_all add: TypeError_reading_def)
  next
    case (Inr docs)
    from createSearchTool_found [of i retriever docs, OF nb Inr] Inr show ?thesis
      by simp
  qed
qed

text \<open>
  Claim C1. The claim says that the tool function never throws, whatever failure the
  store raises. On the code it does throw: when the store rejects with \<open>undefined\<close>
  on the query \<open>refund policy\<close>, the \<open>catch\<close> block reads the message of the caught
  value, and the \<open>TypeError\<close> of that read is thrown to the caller of the tool.
\<close>

theorem search_tool_throws_on_undefined:
  "fst (createSearchTool rejecting_retriever (InputString (lit ''refund policy''))) =
     Inl (TypeError_reading (lit ''undefined'') (lit ''message''))"
  by (simp add: createSearchTool_def query_of_def trim_def isWhiteSpace_def search_try_def
      search_catch_def read_message_def rejecting_retriever_def Let_def lit_def)

text \<open>
  Claim C2, amended. For a query that is neither empty nor made of whitespace only (so
  that the store is consulted): when the store returns no document the tool returns
  \<open>NOT_FOUND\<close>; when it returns \<open>N > 0\<close> documents the tool returns the header line and
  then the documents, each rendered as \<open>Source: <source-or-unknown>\<newline>Content: <text>\<close>,
  joined by the delimiter in the order of the store. The number of occurrences of
  \<open>Source:\<close> in the result is \<open>N\<close> plus the occurrences inside the sources and contents of
  the documents themselves, hence exactly \<open>N\<close> when no source or content contains
  \<open>Source:\<close>.
\<close>

theorem search_tool_formatting:
  "(\<exists>c\<in>set (query_of i). \<not> isWhiteSpace c) \<and> retriever (query_of i) = Inr docs \<longrightarrow>
     (docs = [] \<longrightarrow> fst (createSearchTool retriever i) = Inr NOT_FOUND) \<and>
     (docs \<noteq> [] \<longrightarrow>
        (\<exists>result.
           fst (createSearchTool retriever i) = Inr result \<and>
           result = FOUND_HEADER @ join DELIMITER
                      (map (\<lambda>d. lit ''Source: '' @ source_or_unknown d
                                  @ lit ''\<newline>Content: '' @ pageContent d) docs) \<and>
           count_occurrences (lit ''Source:'') result =
             length docs + (\<Sum>d\<leftarrow>docs. count_occurrences (lit ''Source:'') (source_or_unknown d)
                                      + count_occurrences (lit ''Source:'') (pageContent d)) \<and>
           ((\<forall>d\<in>set docs. count_occurrences (lit ''Source:'') (source_or_unknown d) = 0
                          \<and> count_occurrences (lit ''Source:'') (pageContent d) = 0)
              \<longrightarrow> count_occurrences (lit ''Source:'') result = length docs)))"
proof (intro impI conjI; elim conjE)
  assume nb: "\<exists>c\<in>set (query_of i). \<not> isWhiteSpace c" and r: "retriever (query_of i) = Inr docs"
  { assume "docs = []"
    then show "fst (createSearchTool retriever i) = Inr NOT_FOUND"
      using createSearchTool_found [of i retriever docs, OF nb r] by simp }
  { assume ne: "docs \<noteq> []"
    let ?result = "FOUND_HEADER @ join DELIMITER (map format_doc docs)"
    have fmt: "format_doc = (\<lambda>d. lit ''Source: '' @ source_or_unknown d
                                  @ lit ''\<newline>Content: '' @ pageContent d)"
      by (rule ext) (simp add: format_doc_def)
    have 1: "fst (createSearchTool retriever i) = Inr ?result"
      using createSearchTool_found [of i retriever docs, OF nb r] ne by simp
    have 2: "count_occurrences (lit ''Source:'') ?result =
             length docs + (\<Sum>d\<leftarrow>docs. count_occurrences (lit ''Source:'') (source_or_unknown d)
                                      + count_occurrences (lit ''Source:'') (pageContent d))"
      by (rule count_occurrences_formatted)
    have 3: "(\<forall>d\<in>set docs. count_occurrences (lit ''Source:'') (source_or_unknown d) = 0
                          \<and> count_occurrences (lit ''Source:'') (pageContent d) = 0)
              \<longrightarrow> count_occurrences (lit ''Source:'') ?result = length docs"
    proof
      assume "\<forall>d\<in>set docs. count_occurrences (lit ''Source:'') (source_or_unknown d) = 0
                          \<and> count_occurrences (lit ''Source:'') (pageContent d) = 0"
      then have "(\<Sum>d\<leftarrow>docs. count_occurrences (lit ''Source:'') (source_or_unknown d)
                                      + count_occurrences (lit ''Source:'') (pageContent d)) = 0"
        by (induction docs) simp_all
      with 2 show "count_occurrences (lit ''Source:'') ?result = length docs" by simp
    qed
    from 1 2 3 show "\<exists>result.
           fst (createSearchTool retriever i) = Inr result \<and>
           result = FOUND_HEADER @ join DELIMITER
                      (map (\<lambda>d. lit ''Source: '' @ source_or_unknown d
                                  @ lit ''\<newline>Content: '' @ pageContent d) docs) \<and>
           count_occurrences (lit ''Source:'') result =
             length docs + (\<Sum>d\<leftarrow>docs. count_occurrences (lit ''Source:'') (source_or_unknown d)
                                      + count_occurrences (lit ''Source:'') (pageContent d)) \<and>
           ((\<forall>d\<in>set docs. count_occurrences (lit ''Source:'') (source_or_unknown d) = 0
                          \<and> count_occurrences (lit ''Source:'') (pageContent d) = 0)
              \<longrightarrow> count_occurrences (lit ''Source:'') result = length docs)"
      unfolding fmt [symmetric] by blast }
qed

theorem search_tool_formatting_witness:
  "(\<exists>c\<in>set (query_of (InputString (lit ''refund''))). \<not> isWhiteSpace c) \<and>
   fixed_retriever two_docs (query_of (InputString (lit ''refund''))) = Inr two_docs \<and>
   two_docs \<noteq> [] \<and>
   list_all (\<lambda>d. count_occurrences (lit ''Source:'') (source_or_unknown d) = 0
                    \<and> count_occurrences (lit ''Source:'') (pageContent d) = 0) two_docs \<and>
   fst (createSearchTool (fixed_retriever two_docs) (InputString (lit ''refund''))) =
     Inr (lit ''Found the following information in the knowledge base:\<newline>Source: a.pdf\<newline>Content: Refunds within 30 days.\<newline>\<newline>---\<newline>Source: b.pdf\<newline>Content: Contact support.'') \<and>
   count_occurrences (lit ''Source:'')
     (lit ''Found the following information in the knowledge base:\<newline>Source: a.pdf\<newline>Content: Refunds within 30 days.\<newline>\<newline>---\<newline>Source: b.pdf\<newline>Content: Contact support.'') = 2 \<and>
   fixed_retriever [] (query_of (InputString (lit ''refund''))) = Inr [] \<and>
   fst (createSearchTool (fixed_retriever []) (InputString (lit ''refund''))) =
     Inr (lit ''No relevant information found in the knowledge base for that query.'')"
proof -
  let ?i = "InputString (lit ''refund'')"
  let ?text = "lit ''Found the following information in the knowledge base:\<newline>Source: a.pdf\<newline>Content: Refunds within 30 days.\<newline>\<newline>---\<newline>Source: b.pdf\<newline>Content: Contact support.''"
  have h1: "\<exists>c\<in>set (query_of ?i). \<not> isWhiteSpace c"
    by (simp add: query_of_def lit_def isWhiteSpace_def)
  have h2: "fixed_retriever two_docs (query_of ?i) = Inr two_docs"
    by (simp add: fixed_retriever_def)
  have h3: "two_docs \<noteq> []"
    by (simp add: two_docs_def)
  have h4: "\<forall>d\<in>set two_docs. count_occurrences (lit ''Source:'') (source_or_unknown d) = 0
                      \<and> count_occurrences (lit ''Source:'') (pageContent d) = 0"
    by (simp add: two_docs_def source_or_unknown_def falsy_def template_string_def lit_def)
  have h5: "fixed_retriever [] (query_of ?i) = Inr []"
    by (simp add: fixed_retriever_def)
  have rendered: "FOUND_HEADER @ join DELIMITER
                (map (\<lambda>d. lit ''Source: '' @ source_or_unknown d
                            @ lit ''\<newline>Content: '' @ pageContent d) two_docs) = ?text"
    by (simp add: FOUND_HEADER_def DELIMITER_def two_docs_def source_or_unknown_def falsy_def
        template_string_def lit_def)
  from search_tool_formatting [of ?i "fixed_retriever two_docs" two_docs] h1 h2 h3 h4
  have "fst (createSearchTool (fixed_retriever two_docs) ?i) = Inr ?text
        \<and> count_occurrences (lit ''Source:'') ?text = length two_docs"
    unfolding rendered by blast
  moreover have "length two_docs = 2"
    by (simp add: two_docs_def)
  moreover from search_tool_formatting [of ?i "fixed_retriever []" "[]"] h1 h5
  have "fst (createSearchTool (fixed_retriever []) ?i) = Inr NOT_FOUND"
    by blast
  ultimately show ?thesis
    using h1 h2 h3 h4 h5 by (simp add: NOT_FOUND_def list_all_iff)
qed

text \<open>
  The claim C2 as stated fails: one document whose content quotes \<open>Source:\<close> gives a
  result with two occurrences of \<open>Source:\<close>.
\<close>

theorem source_count_counterexample:
  "fst (createSearchTool (fixed_retriever [quoting_doc]) (InputString (lit ''appendix''))) =
     Inr (lit ''Found the following information in the knowledge base:\<newline>Source: Unknown Source\<newline>Content: Source: see appendix'')
   \<and> count_occurrences (lit ''Source:'')
        (lit ''Found the following information in the knowledge base:\<newline>Source: Unknown Source\<newline>Content: Source: see appendix'') = 2
   \<and> length [quoting_doc] = 1"
  by (simp add: createSearchTool_def search_try_def query_of_def fixed_retriever_def quoting_doc_def
      trim_def isWhiteSpace_def FOUND_HEADER_def format_doc_def source_or_unknown_def lit_def Let_def)

text \<open>
  Claim C3. For a query that is empty or made of whitespace only, the tool returns the
  fixed tool-error string and has no effect at all; in particular the retriever is not
  called.
\<close>

theorem blank_query_tool_error:
  "(\<forall>c\<in>set (query_of i). isWhiteSpace c) \<longrightarrow>
     fst (createSearchTool retriever i) = Inr NO_QUERY_ERROR \<and>
     snd (createSearchTool retriever i) = [] \<and>
     (\<forall>q. GetRelevantDocuments q \<notin> set (snd (createSearchTool retriever i)))"
  by (simp add: createSearchTool_blank)

theorem blank_query_tool_error_witness:
  "list_all isWhiteSpace (query_of (InputObject (lit '' \<newline>  ''))) \<and>
   createSearchTool failing_retriever (InputObject (lit '' \<newline>  '')) =
     (Inr (lit ''Tool Error: No query provided. Please provide a search query for the knowledge base.''), [])"
proof -
  have h: "\<forall>c\<in>set (query_of (InputObject (lit '' \<newline>  ''))). isWhiteSpace c"
    by (simp add: query_of_def lit_def isWhiteSpace_def)
  with blank_query_tool_error [of "InputObject (lit '' \<newline>  '')" failing_retriever]
  have "fst (createSearchTool failing_retriever (InputObject (lit '' \<newline>  ''))) = Inr NO_QUERY_ERROR"
    and "snd (createSearchTool failing_retriever (InputObject (lit '' \<newline>  ''))) = []"
    by blast+
  then have "createSearchTool failing_retriever (InputObject (lit '' \<newline>  '')) = (Inr NO_QUERY_ERROR, [])"
    by (simp add: prod_eq_iff)
  with h show ?thesis by (simp add: NO_QUERY_ERROR_def list_all_iff)
qed

section \<open>The message adapter\<close>

lemma fst_convert:
  "fst (convertVercelMessagesToLangChainMessages ms) = map (\<lambda>m. fst (convertMessage m)) ms"
  by (simp add: convertVercelMessagesToLangChainMessages_def)

lemma snd_convert:
  "snd (convertVercelMessagesToLangChainMessages ms) = concat (map (\<lambda>m. snd (convertMessage m)) ms)"
  by (simp add: convertVercelMessagesToLangChainMessages_def)

lemma convert_warnings_only:
  "x \<in> set (snd (convertVercelMessagesToLangChainMessages ms)) \<Longrightarrow> \<exists>w. x = ConsoleWarn w"
  by (auto simp: snd_convert convertMessage_def split: if_splits)

lemma count_ai_messages:
  "count_list (fst (convertVercelMessagesToLangChainMessages pre)) (AIMessage c) =
     length (filter (\<lambda>m. role m = lit ''assistant'' \<and> content m = c) pre)"
  by (induction pre) (auto simp: fst_convert convertMessage_def lit_def)

text \<open>
  Claim C4. Whatever the roles, the converted list has the length of the input list.
\<close>

theorem convert_preserves_length:
  "length (fst (convertVercelMessagesToLangChainMessages ms)) = length ms"
  by (simp add: fst_convert)

text \<open>
  Claim C5. At every position, a message of role \<open>user\<close> becomes a human message and a
  message of role \<open>assistant\<close> becomes an ai message, with the content of the input
  message at that position.
\<close>

theorem convert_user_assistant:
  "\<forall>i<length ms.
     (role (ms ! i) = lit ''user'' \<longrightarrow>
        fst (convertVercelMessagesToLangChainMessages ms) ! i = HumanMessage (content (ms ! i))) \<and>
     (role (ms ! i) = lit ''assistant'' \<longrightarrow>
        fst (convertVercelMessagesToLangChainMessages ms) ! i = AIMessage (content (ms ! i)))"
  by (simp add: fst_convert convertMessage_def lit_def)

theorem convert_user_assistant_witness:
  "(1::nat) < length [user_turn, assistant_hi, user_turn] \<and>
   (0::nat) < length [user_turn, assistant_hi, user_turn] \<and>
   role ([user_turn, assistant_hi, user_turn] ! 0) = lit ''user'' \<and>
   role ([user_turn, assistant_hi, user_turn] ! 1) = lit ''assistant'' \<and>
   fst (convertVercelMessagesToLangChainMessages [user_turn, assistant_hi, user_turn]) ! 0 =
     HumanMessage (Some (lit ''What is our refund policy?'')) \<and>
   fst (convertVercelMessagesToLangChainMessages [user_turn, assistant_hi, user_turn]) ! 1 =
     AIMessage (Some (lit ''Hi''))"
proof -
  let ?ms = "[user_turn, assistant_hi, user_turn]"
  have l0: "(0::nat) < length ?ms" and l1: "(1::nat) < length ?ms" by simp_all
  have r0: "role (?ms ! 0) = lit ''user''" by (simp add: user_turn_def)
  have r1: "role (?ms ! 1) = lit ''assistant''" by (simp add: assistant_hi_def)
  from convert_user_assistant [of ?ms] l0 r0
  have "fst (convertVercelMessagesToLangChainMessages ?ms) ! 0 = HumanMessage (content (?ms ! 0))"
    by blast
  moreover from convert_user_assistant [of ?ms] l1 r1
  have "fst (convertVercelMessagesToLangChainMessages ?ms) ! 1 = AIMessage (content (?ms ! 1))"
    by blast
  ultimately show ?thesis
    using l0 l1 r0 r1 by (simp add: user_turn_def assistant_hi_def)
qed

text \<open>
  Claim C6. A message whose role is neither \<open>user\<close> nor \<open>assistant\<close> becomes, at its
  position, a human message whose content is \<open>Unknown role:\<close>, a space and the rendering
  of the original content (the original content itself when there is one); a warning
  that ends with the role is logged, and the turn is kept. The conversion has no error
  outcome.
\<close>

theorem convert_unknown_role:
  "i < length ms \<and> role (ms ! i) \<noteq> lit ''user'' \<and> role (ms ! i) \<noteq> lit ''assistant'' \<longrightarrow>
     fst (convertVercelMessagesToLangChainMessages ms) ! i =
       HumanMessage (Some (lit ''Unknown role: '' @ template_string (content (ms ! i)))) \<and>
     (\<forall>c. content (ms ! i) = Some c \<longrightarrow>
        fst (convertVercelMessagesToLangChainMessages ms) ! i =
          HumanMessage (Some (lit ''Unknown role:'' @ lit '' '' @ c))) \<and>
     ConsoleWarn (lit ''Unknown message role during conversion: '' @ role (ms ! i))
       \<in> set (snd (convertVercelMessagesToLangChainMessages ms)) \<and>
     length (fst (convertVercelMessagesToLangChainMessages ms)) = length ms"
proof (intro impI, elim conjE)
  assume i: "i < length ms" and u: "role (ms ! i) \<noteq> lit ''user''"
    and a: "role (ms ! i) \<noteq> lit ''assistant''"
  have m: "convertMessage (ms ! i) =
             (HumanMessage (Some (lit ''Unknown role: '' @ template_string (content (ms ! i)))),
              [ConsoleWarn (lit ''Unknown message role during conversion: '' @ role (ms ! i))])"
    using u a by (simp add: convertMessage_def)
  have 1: "fst (convertVercelMessagesToLangChainMessages ms) ! i =
       HumanMessage (Some (lit ''Unknown role: '' @ template_string (content (ms ! i))))"
    using i m by (simp add: fst_convert)
  have 2: "\<forall>c. content (ms ! i) = Some c \<longrightarrow>
        fst (convertVercelMessagesToLangChainMessages ms) ! i =
          HumanMessage (Some (lit ''Unknown role:'' @ lit '' '' @ c))"
    using 1 by (simp add: template_string_def lit_def)
  have "ms ! i \<in> set ms" using i by simp
  then have 3: "ConsoleWarn (lit ''Unknown message role during conversion: '' @ role (ms ! i))
       \<in> set (snd (convertVercelMessagesToLangChainMessages ms))"
    using m by (force simp: snd_convert)
  from 1 2 3 show "fst (convertVercelMessagesToLangChainMessages ms) ! i =
       HumanMessage (Some (lit ''Unknown role: '' @ template_string (content (ms ! i)))) \<and>
     (\<forall>c. content (ms ! i) = Some c \<longrightarrow>
        fst (convertVercelMessagesToLangChainMessages ms) ! i =
          HumanMessage (Some (lit ''Unknown role:'' @ lit '' '' @ c))) \<and>
     ConsoleWarn (lit ''Unknown message role during conversion: '' @ role (ms ! i))
       \<in> set (snd (convertVercelMessagesToLangChainMessages ms)) \<and>
     length (fst (convertVercelMessagesToLangChainMessages ms)) = length ms"
    by (simp add: fst_convert)
qed

theorem convert_unknown_role_witness:
  "(1::nat) < length [user_turn, tool_turn] \<and>
   role ([user_turn, tool_turn] ! 1) \<noteq> lit ''user'' \<and>
   role ([user_turn, tool_turn] ! 1) \<noteq> lit ''assistant'' \<and>
   content ([user_turn, tool_turn] ! 1) = Some (lit ''42'') \<and>
   fst (convertVercelMessagesToLangChainMessages [user_turn, tool_turn]) ! 1 =
     HumanMessage (Some (lit ''Unknown role: 42'')) \<and>
   ConsoleWarn (lit ''Unknown message role during conversion: tool'')
     \<in> set (snd (convertVercelMessagesToLangChainMessages [user_turn, tool_turn])) \<and>
   length (fst (convertVercelMessagesToLangChainMessages [user_turn, tool_turn])) = 2"
proof -
  let ?ms = "[user_turn, tool_turn]"
  have h1: "(1::nat) < length ?ms" by simp
  have h2: "role (?ms ! 1) \<noteq> lit ''user''" by (simp add: tool_turn_def lit_def)
  have h3: "role (?ms ! 1) \<noteq> lit ''assistant''" by (simp add: tool_turn_def lit_def)
  have h4: "content (?ms ! 1) = Some (lit ''42'')" by (simp add: tool_turn_def)
  from convert_unknown_role [of 1 ?ms] h1 h2 h3 h4
  have "fst (convertVercelMessagesToLangChainMessages ?ms) ! 1 =
          HumanMessage (Some (lit ''Unknown role:'' @ lit '' '' @ lit ''42''))"
    and "ConsoleWarn (lit ''Unknown message role during conversion: '' @ role (?ms ! 1))
          \<in> set (snd (convertVercelMessagesToLangChainMessages ?ms))"
    and "length (fst (convertVercelMessagesToLangChainMessages ?ms)) = length ?ms"
    by blast+
  then show ?thesis
    using h1 h2 h3 h4 by (simp add: tool_turn_def lit_def)
qed

section \<open>The POST handler\<close>

lemma POST_catch_thrown:
  "POST_catch (Thrown m) effects =
     (Inr (json_error_response
             (if falsy m then lit ''An unexpected error occurred in the chat API.''
              else template_string m) 500),
      effects @ [ConsoleError OUTER_CATCH (Thrown m)])"
  by (simp add: POST_catch_def read_message_def Let_def)

lemma POST_catch_returns:
  "fst (POST_catch e effects) = Inr resp \<Longrightarrow>
     (\<exists>s. resp = json_error_response s 500) \<and>
     POST_catch e effects = (Inr resp, effects @ [ConsoleError OUTER_CATCH e])"
  by (cases e) (auto simp: POST_catch_def read_message_def Let_def)

lemma POST_rejected: "POST env up (Inl e) = POST_catch e []"
  by (simp add: POST_def POST_try_def)

text \<open>
  A body that parses to \<open>null\<close>: reading \<open>messages\<close> throws inside the \<open>try\<close> block, and
  the catch-all answers 500 with the message of that \<open>TypeError\<close>.
\<close>

lemma POST_null_body:
  "POST env up (Inr JsonNull) = POST_catch (TypeError_reading (lit ''null'') (lit ''messages'')) []"
  by (simp add: POST_def POST_try_def body_messages_def)

lemma POST_non_object:
  "POST env up (Inr JsonNonObject) =
     (Inr (json_error_response (lit ''No messages provided'') 400), [])"
  by (simp add: POST_def POST_try_def body_messages_def or_empty_def)

lemma POST_no_messages:
  "messages_or_empty request = [] \<Longrightarrow>
     POST env up (Inr (JsonObject request)) =
       (Inr (json_error_response (lit ''No messages provided'') 400), [])"
  by (simp add: POST_def POST_try_def body_messages_def messages_or_empty_def)

lemma POST_no_content:
  "messages_or_empty request \<noteq> [] \<Longrightarrow> falsy (content (last (messages_or_empty request))) \<Longrightarrow>
     POST env up (Inr (JsonObject request)) =
       (Inr (json_error_response (lit ''No current message content found'') 400), [])"
  by (simp add: POST_def POST_try_def body_messages_def messages_or_empty_def falsy_def
      split: option.splits)

lemma POST_missing_env:
  "messages_or_empty request \<noteq> [] \<Longrightarrow> \<not> falsy (content (last (messages_or_empty request))) \<Longrightarrow>
     missing_env env \<Longrightarrow>
     POST env up (Inr (JsonObject request)) =
       (Inr (json_error_response (lit ''Missing environment variables'') 500), [])"
  by (simp add: POST_def POST_try_def body_messages_def messages_or_empty_def falsy_def
      split: option.splits)

lemma POST_run_agent:
  "messages_or_empty request \<noteq> [] \<Longrightarrow> content (last (messages_or_empty request)) = Some cur \<Longrightarrow>
     cur \<noteq> [] \<Longrightarrow> \<not> missing_env env \<Longrightarrow>
     POST env up (Inr (JsonObject request)) =
       (case run_agent env up (messages_or_empty request) cur of
          (Inr resp, effects) \<Rightarrow> (Inr resp, effects)
        | (Inl e, effects) \<Rightarrow> POST_catch e effects)"
  by (simp add: POST_def POST_try_def body_messages_def messages_or_empty_def)

lemma run_agent_effects:
  "snd (run_agent env up ms cur) =
     (case buildAgentExecutor up env of
        Inl e \<Rightarrow> [BuildAgentExecutor]
      | Inr agentExecutor \<Rightarrow>
          BuildAgentExecutor # snd (convertVercelMessagesToLangChainMessages (butlast ms))
            @ [StreamEvents \<lparr>input = cur,
                 chat_history = fst (convertVercelMessagesToLangChainMessages (butlast ms))\<rparr>])"
  by (simp add: run_agent_def Let_def split: sum.splits prod.splits)

lemma run_agent_built:
  assumes "buildAgentExecutor up env = Inr agentExecutor"
  shows "run_agent env up ms cur =
     (let history = convertVercelMessagesToLangChainMessages (butlast ms);
          agentInput = \<lparr>input = cur, chat_history = fst history\<rparr>;
          effects = BuildAgentExecutor # snd history @ [StreamEvents agentInput]
      in case agentExecutor agentInput of
           Inr eventStream \<Rightarrow> (Inr (stream_response (toDataStream up eventStream)), effects)
         | Inl e \<Rightarrow> (Inl e, effects))"
  using assms by (simp add: run_agent_def Let_def split: sum.splits prod.splits)

lemma POST_effects_run:
  assumes "messages_or_empty request \<noteq> []" "content (last (messages_or_empty request)) = Some cur"
    "cur \<noteq> []" "\<not> missing_env env"
  shows "\<exists>tail. snd (POST env up (Inr (JsonObject request))) =
                  snd (run_agent env up (messages_or_empty request) cur) @ tail
            \<and> (\<forall>x\<in>set tail. \<exists>m e. x = ConsoleError m e)"
proof (cases "run_agent env up (messages_or_empty request) cur")
  case (Pair outcome effects)
  show ?thesis
  proof (cases outcome)
    case (Inr resp)
    with Pair show ?thesis by (simp add: POST_run_agent [OF assms])
  next
    case (Inl e)
    with Pair show ?thesis
      by (cases e) (auto simp: POST_run_agent [OF assms] POST_catch_def read_message_def Let_def)
  qed
qed

lemma POST_run_outcome:
  assumes "messages_or_empty request \<noteq> []" "content (last (messages_or_empty request)) = Some cur"
    "cur \<noteq> []" "\<not> missing_env env"
  shows "(\<exists>ds. fst (POST env up (Inr (JsonObject request))) = Inr (stream_response ds)) \<or>
         ((\<exists>t. fst (POST env up (Inr (JsonObject request))) = Inl t) \<or>
          (\<exists>s. fst (POST env up (Inr (JsonObject request))) = Inr (json_error_response s 500))) \<and>
         (\<exists>e. ConsoleError OUTER_CATCH e \<in> set (snd (POST env up (Inr (JsonObject request)))))"
proof (cases "run_agent env up (messages_or_empty request) cur")
  case (Pair outcome effects)
  show ?thesis
  proof (cases outcome)
    case (Inr resp)
    with Pair have "\<exists>ds. resp = stream_response ds"
      by (auto simp: run_agent_def Let_def split: sum.splits prod.splits)
    with Pair Inr show ?thesis by (auto simp: POST_run_agent [OF assms])
  next
    case (Inl e)
    with Pair show ?thesis
      by (cases e) (auto simp: POST_run_agent [OF assms] POST_catch_def read_message_def Let_def)
  qed
qed

text \<open>
  Claim C7. For a request that passes the checks (a non-empty list, a last message with
  non-empty content, the configuration present) and an executor that is built without
  a throw, the handler applies \<open>streamEvents\<close> to exactly the content of the last
  message as \<open>input\<close> and the conversion of all preceding messages as \<open>chat_history\<close>:
  its response is the stream made from what the executor gives on that argument (or
  the outcome of the catch-all on what the executor throws on it), and that argument
  is the only one in the trace. When the construction of the executor throws, the
  response is the outcome of the catch-all on the thrown value and no call is made. The history has as many ai messages of content \<open>Hi\<close>
  as there are preceding \<open>assistant\<close> turns of content \<open>Hi\<close>: a single such turn before
  the new one gives the history of exactly that one ai message.
\<close>

theorem POST_agent_input:
  "messages_or_empty request \<noteq> [] \<and> content (last (messages_or_empty request)) = Some cur \<and>
   cur \<noteq> [] \<and> \<not> missing_env env \<longrightarrow>
     (\<forall>agentExecutor. buildAgentExecutor up env = Inr agentExecutor \<longrightarrow>
        POST env up (Inr (JsonObject request)) =
          (let history = convertVercelMessagesToLangChainMessages
                           (butlast (messages_or_empty request));
               agentInput = \<lparr>input = cur, chat_history = fst history\<rparr>;
               effects = BuildAgentExecutor # snd history @ [StreamEvents agentInput]
           in case agentExecutor agentInput of
                Inr eventStream \<Rightarrow>
                  (Inr (stream_response (toDataStream up eventStream)), effects)
              | Inl e \<Rightarrow> POST_catch e effects)) \<and>
     (\<forall>e. buildAgentExecutor up env = Inl e \<longrightarrow>
        POST env up (Inr (JsonObject request)) = POST_catch e [BuildAgentExecutor]) \<and>
     (\<forall>a. StreamEvents a \<in> set (snd (POST env up (Inr (JsonObject request)))) \<longrightarrow>
        a = \<lparr>input = cur,
             chat_history = fst (convertVercelMessagesToLangChainMessages
                                   (butlast (messages_or_empty request)))\<rparr>) \<and>
     count_list (fst (convertVercelMessagesToLangChainMessages (butlast (messages_or_empty request))))
         (AIMessage (Some (lit ''Hi''))) =
       length (filter (\<lambda>m. role m = lit ''assistant'' \<and> content m = Some (lit ''Hi''))
                 (butlast (messages_or_empty request))) \<and>
     (\<forall>m. messages_or_empty request = [\<lparr>role = lit ''assistant'', content = Some (lit ''Hi'')\<rparr>, m] \<longrightarrow>
        fst (convertVercelMessagesToLangChainMessages (butlast (messages_or_empty request))) =
          [AIMessage (Some (lit ''Hi''))])"
proof (intro impI, elim conjE)
  let ?ms = "messages_or_empty request"
  let ?ai = "\<lparr>input = cur, chat_history = fst (convertVercelMessagesToLangChainMessages (butlast ?ms))\<rparr>"
  assume h: "?ms \<noteq> []" "content (last ?ms) = Some cur" "cur \<noteq> []" "\<not> missing_env env"
  from POST_effects_run [OF h, of up] obtain tail where
    eff: "snd (POST env up (Inr (JsonObject request))) = snd (run_agent env up ?ms cur) @ tail"
    and tail: "\<forall>x\<in>set tail. \<exists>m e. x = ConsoleError m e"
    by blast
  have 1: "\<forall>agentExecutor. buildAgentExecutor up env = Inr agentExecutor \<longrightarrow>
        POST env up (Inr (JsonObject request)) =
          (let history = convertVercelMessagesToLangChainMessages (butlast ?ms);
               agentInput = \<lparr>input = cur, chat_history = fst history\<rparr>;
               effects = BuildAgentExecutor # snd history @ [StreamEvents agentInput]
           in case agentExecutor agentInput of
                Inr eventStream \<Rightarrow>
                  (Inr (stream_response (toDataStream up eventStream)), effects)
              | Inl e \<Rightarrow> POST_catch e effects)"
  proof (intro allI impI)
    fix agentExecutor
    assume b: "buildAgentExecutor up env = Inr agentExecutor"
    show "POST env up (Inr (JsonObject request)) =
          (let history = convertVercelMessagesToLangChainMessages (butlast ?ms);
               agentInput = \<lparr>input = cur, chat_history = fst history\<rparr>;
               effects = BuildAgentExecutor # snd history @ [StreamEvents agentInput]
           in case agentExecutor agentInput of
                Inr eventStream \<Rightarrow>
                  (Inr (stream_response (toDataStream up eventStream)), effects)
              | Inl e \<Rightarrow> POST_catch e effects)"
      unfolding POST_run_agent [OF h] run_agent_built [OF b]
      by (simp add: Let_def split: sum.splits)
  qed
  have 5: "\<forall>e. buildAgentExecutor up env = Inl e \<longrightarrow>
             POST env up (Inr (JsonObject request)) = POST_catch e [BuildAgentExecutor]"
    by (simp add: POST_run_agent [OF h] run_agent_def)
  have 2: "\<forall>a. StreamEvents a \<in> set (snd (POST env up (Inr (JsonObject request)))) \<longrightarrow> a = ?ai"
  proof (intro allI impI)
    fix a
    assume "StreamEvents a \<in> set (snd (POST env up (Inr (JsonObject request))))"
    then have "StreamEvents a \<in> set (snd (run_agent env up ?ms cur)) \<or> StreamEvents a \<in> set tail"
      by (simp add: eff)
    then have "StreamEvents a \<in> set (snd (run_agent env up ?ms cur))"
      using tail by auto
    then show "a = ?ai"
      by (auto simp: run_agent_effects split: sum.splits dest: convert_warnings_only)
  qed
  have 3: "count_list (fst (convertVercelMessagesToLangChainMessages (butlast ?ms)))
             (AIMessage (Some (lit ''Hi''))) =
           length (filter (\<lambda>m. role m = lit ''assistant'' \<and> content m = Some (lit ''Hi''))
                     (butlast ?ms))"
    by (rule count_ai_messages)
  have 4: "\<forall>m. ?ms = [\<lparr>role = lit ''assistant'', content = Some (lit ''Hi'')\<rparr>, m] \<longrightarrow>
             fst (convertVercelMessagesToLangChainMessages (butlast ?ms)) = [AIMessage (Some (lit ''Hi''))]"
    by (simp add: fst_convert convertMessage_def lit_def)
  from 1 2 3 4 5 show
    "(\<forall>agentExecutor. buildAgentExecutor up env = Inr agentExecutor \<longrightarrow>
        POST env up (Inr (JsonObject request)) =
          (let history = convertVercelMessagesToLangChainMessages (butlast ?ms);
               agentInput = \<lparr>input = cur, chat_history = fst history\<rparr>;
               effects = BuildAgentExecutor # snd history @ [StreamEvents agentInput]
           in case agentExecutor agentInput of
                Inr eventStream \<Rightarrow>
                  (Inr (stream_response (toDataStream up eventStream)), effects)
              | Inl e \<Rightarrow> POST_catch e effects)) \<and>
     (\<forall>e. buildAgentExecutor up env = Inl e \<longrightarrow>
        POST env up (Inr (JsonObject request)) = POST_catch e [BuildAgentExecutor]) \<and>
     (\<forall>a. StreamEvents a \<in> set (snd (POST env up (Inr (JsonObject request)))) \<longrightarrow> a = ?ai) \<and>
     count_list (fst (convertVercelMessagesToLangChainMessages (butlast ?ms)))
         (AIMessage (Some (lit ''Hi''))) =
       length (filter (\<lambda>m. role m = lit ''assistant'' \<and> content m = Some (lit ''Hi''))
                 (butlast ?ms)) \<and>
     (\<forall>m. ?ms = [\<lparr>role = lit ''assistant'', content = Some (lit ''Hi'')\<rparr>, m] \<longrightarrow>
        fst (convertVercelMessagesToLangChainMessages (butlast ?ms)) = [AIMessage (Some (lit ''Hi''))])"
    by blast
qed

theorem POST_agent_input_witness:
  "messages_or_empty hi_request \<noteq> [] \<and>
   content (last (messages_or_empty hi_request)) = Some (lit ''What is our refund policy?'') \<and>
   lit ''What is our refund policy?'' \<noteq> [] \<and> \<not> missing_env full_env \<and>
   buildAgentExecutor echo_upstream full_env = Inr (\<lambda>agentInput. Inr agentInput) \<and>
   messages_or_empty hi_request = [\<lparr>role = lit ''assistant'', content = Some (lit ''Hi'')\<rparr>, user_turn] \<and>
   POST full_env echo_upstream (Inr (JsonObject hi_request)) =
     (Inr (stream_response \<lparr>input = lit ''What is our refund policy?'',
                             chat_history = [AIMessage (Some (lit ''Hi''))]\<rparr>),
      [BuildAgentExecutor,
       StreamEvents \<lparr>input = lit ''What is our refund policy?'',
                     chat_history = [AIMessage (Some (lit ''Hi''))]\<rparr>])"
proof -
  let ?cur = "lit ''What is our refund policy?''"
  have h1: "messages_or_empty hi_request \<noteq> []"
    by (simp add: messages_or_empty_def or_empty_def hi_request_def)
  have h2: "content (last (messages_or_empty hi_request)) = Some ?cur"
    by (simp add: messages_or_empty_def or_empty_def hi_request_def user_turn_def)
  have h3: "?cur \<noteq> []" by (simp add: lit_def)
  have h4: "\<not> missing_env full_env"
    by (simp add: missing_env_def full_env_def falsy_def lit_def)
  have h5: "buildAgentExecutor echo_upstream full_env = Inr (\<lambda>agentInput. Inr agentInput)"
    by (simp add: echo_upstream_def)
  have h6: "messages_or_empty hi_request = [\<lparr>role = lit ''assistant'', content = Some (lit ''Hi'')\<rparr>, user_turn]"
    by (simp add: messages_or_empty_def or_empty_def hi_request_def)
  from POST_agent_input [of hi_request ?cur full_env echo_upstream] h1 h2 h3 h4
  have a: "\<forall>agentExecutor. buildAgentExecutor echo_upstream full_env = Inr agentExecutor \<longrightarrow>
        POST full_env echo_upstream (Inr (JsonObject hi_request)) =
          (let history = convertVercelMessagesToLangChainMessages
                           (butlast (messages_or_empty hi_request));
               agentInput = \<lparr>input = ?cur, chat_history = fst history\<rparr>;
               effects = BuildAgentExecutor # snd history @ [StreamEvents agentInput]
           in case agentExecutor agentInput of
                Inr eventStream \<Rightarrow>
                  (Inr (stream_response (toDataStream echo_upstream eventStream)), effects)
              | Inl e \<Rightarrow> POST_catch e effects)"
    by blast
  from a h5 have "POST full_env echo_upstream (Inr (JsonObject hi_request)) =
          (let history = convertVercelMessagesToLangChainMessages
                           (butlast (messages_or_empty hi_request));
               agentInput = \<lparr>input = ?cur, chat_history = fst history\<rparr>;
               effects = BuildAgentExecutor # snd history @ [StreamEvents agentInput]
           in case (Inr agentInput :: js_thrown + agent_input) of
                Inr eventStream \<Rightarrow>
                  (Inr (stream_response (toDataStream echo_upstream eventStream)), effects)
              | Inl e \<Rightarrow> POST_catch e effects)"
    by blast
  then have "POST full_env echo_upstream (Inr (JsonObject hi_request)) =
     (Inr (stream_response \<lparr>input = ?cur, chat_history = [AIMessage (Some (lit ''Hi''))]\<rparr>),
      [BuildAgentExecutor,
       StreamEvents \<lparr>input = ?cur, chat_history = [AIMessage (Some (lit ''Hi''))]\<rparr>])"
    by (simp add: h6 Let_def convertVercelMessagesToLangChainMessages_def convertMessage_def
        echo_upstream_def lit_def)
  with h1 h2 h3 h4 h5 h6 show ?thesis by blast
qed

text \<open>
  Claim C8. The checks are made one after the other. An empty list of messages is
  answered with status 400 and an error body; a last message whose content is missing
  or empty is answered with status 400 and an error body; a request that passed both
  checks while a configuration value is absent is answered with status 500 and an
  error body, and nothing has been called by then: no effect has happened.
\<close>

theorem POST_validation:
  "(messages request = Some [] \<longrightarrow>
      (\<exists>resp. fst (POST env up (Inr (JsonObject request))) = Inr resp \<and>
         status resp = 400 \<and> (\<exists>e. body resp = JsonError e))) \<and>
   (messages request = Some ms \<and> ms \<noteq> [] \<and>
      (content (last ms) = None \<or> content (last ms) = Some []) \<longrightarrow>
      (\<exists>resp. fst (POST env up (Inr (JsonObject request))) = Inr resp \<and>
         status resp = 400 \<and> (\<exists>e. body resp = JsonError e))) \<and>
   (messages request = Some ms \<and> ms \<noteq> [] \<and> content (last ms) = Some cur \<and> cur \<noteq> [] \<and>
      (SUPABASE_URL env = None \<or> SUPABASE_ANON_KEY env = None \<or> OPENAI_API_KEY env = None) \<longrightarrow>
      (\<exists>resp. fst (POST env up (Inr (JsonObject request))) = Inr resp \<and>
         status resp = 500 \<and> (\<exists>e. body resp = JsonError e)) \<and>
      snd (POST env up (Inr (JsonObject request))) = [])"
proof (intro conjI impI; (elim conjE)?)
  assume "messages request = Some []"
  then have "messages_or_empty request = []" by (simp add: messages_or_empty_def or_empty_def)
  then have p: "POST env up (Inr (JsonObject request)) =
                  (Inr (json_error_response (lit ''No messages provided'') 400), [])"
    by (rule POST_no_messages)
  show "\<exists>resp. fst (POST env up (Inr (JsonObject request))) = Inr resp \<and>
         status resp = 400 \<and> (\<exists>e. body resp = JsonError e)"
    by (simp add: p json_error_response_def)
next
  assume "messages request = Some ms" "ms \<noteq> []" "content (last ms) = None \<or> content (last ms) = Some []"
  then have "messages_or_empty request \<noteq> []" "falsy (content (last (messages_or_empty request)))"
    by (auto simp: messages_or_empty_def or_empty_def falsy_def)
  then have p: "POST env up (Inr (JsonObject request)) =
                  (Inr (json_error_response (lit ''No current message content found'') 400), [])"
    by (rule POST_no_content)
  show "\<exists>resp. fst (POST env up (Inr (JsonObject request))) = Inr resp \<and>
         status resp = 400 \<and> (\<exists>e. body resp = JsonError e)"
    by (simp add: p json_error_response_def)
next
  assume "messages request = Some ms" "ms \<noteq> []" "content (last ms) = Some cur" "cur \<noteq> []"
    and "SUPABASE_URL env = None \<or> SUPABASE_ANON_KEY env = None \<or> OPENAI_API_KEY env = None"
  then have "messages_or_empty request \<noteq> []" "\<not> falsy (content (last (messages_or_empty request)))"
    "missing_env env"
    by (auto simp: messages_or_empty_def or_empty_def falsy_def missing_env_def)
  then have p: "POST env up (Inr (JsonObject request)) =
                  (Inr (json_error_response (lit ''Missing environment variables'') 500), [])"
    by (rule POST_missing_env)
  show "\<exists>resp. fst (POST env up (Inr (JsonObject request))) = Inr resp \<and>
         status resp = 500 \<and> (\<exists>e. body resp = JsonError e)"
    by (simp add: p json_error_response_def)
  show "snd (POST env up (Inr (JsonObject request))) = []"
    by (simp add: p)
qed

theorem POST_validation_witness:
  "messages no_messages_request = Some [] \<and>
   (\<exists>resp. fst (POST full_env ready_upstream (Inr (JsonObject no_messages_request))) = Inr resp \<and>
      status resp = 400) \<and>
   messages no_content_request = Some [assistant_hi, \<lparr>role = lit ''user'', content = None\<rparr>] \<and>
   content (last [assistant_hi, \<lparr>role = lit ''user'', content = None\<rparr>]) = None \<and>
   (\<exists>resp. fst (POST full_env ready_upstream (Inr (JsonObject no_content_request))) = Inr resp \<and>
      status resp = 400) \<and>
   messages user_request = Some [user_turn] \<and>
   content (last [user_turn]) = Some (lit ''What is our refund policy?'') \<and>
   OPENAI_API_KEY no_model_key_env = None \<and>
   (\<exists>resp. fst (POST no_model_key_env ready_upstream (Inr (JsonObject user_request))) = Inr resp \<and>
      status resp = 500) \<and>
   snd (POST no_model_key_env ready_upstream (Inr (JsonObject user_request))) = []"
proof -
  have a: "messages no_messages_request = Some []"
    by (simp add: no_messages_request_def)
  have b1: "messages no_content_request = Some [assistant_hi, \<lparr>role = lit ''user'', content = None\<rparr>]"
    by (simp add: no_content_request_def)
  have b2: "[assistant_hi, \<lparr>role = lit ''user'', content = None\<rparr>] \<noteq> []" by simp
  have b3: "content (last [assistant_hi, \<lparr>role = lit ''user'', content = None\<rparr>]) = None" by simp
  have c1: "messages user_request = Some [user_turn]"
    by (simp add: user_request_def)
  have c2: "[user_turn] \<noteq> []" by simp
  have c3: "content (last [user_turn]) = Some (lit ''What is our refund policy?'')"
    by (simp add: user_turn_def)
  have c4: "lit ''What is our refund policy?'' \<noteq> []" by (simp add: lit_def)
  have c5: "OPENAI_API_KEY no_model_key_env = None" by (simp add: no_model_key_env_def)
  from POST_validation [of no_messages_request full_env ready_upstream] a
  have r1: "\<exists>resp. fst (POST full_env ready_upstream (Inr (JsonObject no_messages_request))) = Inr resp \<and>
      status resp = 400"
    by blast
  from POST_validation [of no_content_request full_env ready_upstream
                           "[assistant_hi, \<lparr>role = lit ''user'', content = None\<rparr>]"] b1 b2 b3
  have r2: "\<exists>resp. fst (POST full_env ready_upstream (Inr (JsonObject no_content_request))) = Inr resp \<and>
      status resp = 400"
    by blast
  from POST_validation [of user_request no_model_key_env ready_upstream "[user_turn]"
                           "lit ''What is our refund policy?''"] c1 c2 c3 c4 c5
  have r3: "(\<exists>resp. fst (POST no_model_key_env ready_upstream (Inr (JsonObject user_request))) = Inr resp \<and>
      status resp = 500)
            \<and> snd (POST no_model_key_env ready_upstream (Inr (JsonObject user_request))) = []"
    by blast
  from a b1 b3 c1 c3 c5 r1 r2 r3 show ?thesis by blast
qed

text \<open>
  Claim C9, amended. A body that parses to a value other than \<open>null\<close> and whose input
  is missing (no list of messages, an empty list, or a last message whose content is
  missing or empty) is answered with status 400 and an error body. A body that does
  not parse, so that \<open>req.json()\<close> throws an \<open>Error\<close> (or any value but \<open>null\<close> and
  \<open>undefined\<close>), is answered with status 500 through the catch-all, the error body
  carrying the message of the thrown value, or the default text when that message is
  absent or empty. A response of status 500 only comes from
  missing configuration or from a thrown value that reached the catch-all. Every 400
  and 500 response has an error body.
\<close>

theorem POST_status_taxonomy:
  "fst (POST env up (Inr JsonNonObject)) = Inr (json_error_response (lit ''No messages provided'') 400) \<and>
   (messages_or_empty request = [] \<longrightarrow>
      fst (POST env up (Inr (JsonObject request))) =
        Inr (json_error_response (lit ''No messages provided'') 400)) \<and>
   (messages_or_empty request \<noteq> [] \<and> falsy (content (last (messages_or_empty request))) \<longrightarrow>
      fst (POST env up (Inr (JsonObject request))) =
        Inr (json_error_response (lit ''No current message content found'') 400)) \<and>
   fst (POST env up (Inl (Thrown m))) =
     Inr (json_error_response
            (if falsy m then lit ''An unexpected error occurred in the chat API.''
             else template_string m) 500) \<and>
   (\<forall>resp. fst (POST env up req) = Inr resp \<and> status resp = 500 \<longrightarrow>
      missing_env env \<or> (\<exists>e. ConsoleError OUTER_CATCH e \<in> set (snd (POST env up req)))) \<and>
   (\<forall>resp. fst (POST env up req) = Inr resp \<and> (status resp = 400 \<or> status resp = 500) \<longrightarrow>
      (\<exists>e. body resp = JsonError e))"
proof -
  have 1: "fst (POST env up (Inr JsonNonObject)) =
             Inr (json_error_response (lit ''No messages provided'') 400)"
    by (simp add: POST_non_object)
  have 2: "messages_or_empty request = [] \<longrightarrow>
      fst (POST env up (Inr (JsonObject request))) =
        Inr (json_error_response (lit ''No messages provided'') 400)"
    by (simp add: POST_no_messages)
  have 3: "messages_or_empty request \<noteq> [] \<and> falsy (content (last (messages_or_empty request))) \<longrightarrow>
      fst (POST env up (Inr (JsonObject request))) =
        Inr (json_error_response (lit ''No current message content found'') 400)"
    by (simp add: POST_no_content)
  have 4: "fst (POST env up (Inl (Thrown m))) =
     Inr (json_error_response
            (if falsy m then lit ''An unexpected error occurred in the chat API.''
             else template_string m) 500)"
    by (simp add: POST_rejected POST_catch_thrown)
  have 56: "\<forall>resp. fst (POST env up req) = Inr resp \<longrightarrow>
      (status resp = 500 \<longrightarrow>
         missing_env env \<or> (\<exists>e. ConsoleError OUTER_CATCH e \<in> set (snd (POST env up req)))) \<and>
      (status resp = 400 \<or> status resp = 500 \<longrightarrow> (\<exists>e. body resp = JsonError e))"
  proof (cases req)
    case (Inl e)
    then show ?thesis
      by (auto simp: POST_rejected json_error_response_def dest!: POST_catch_returns)
  next
    case (Inr parsed)
    show ?thesis
    proof (cases parsed)
      case JsonNull
      with Inr show ?thesis
        by (auto simp: POST_null_body json_error_response_def dest!: POST_catch_returns)
    next
      case JsonNonObject
      with Inr show ?thesis
        by (simp add: POST_non_object json_error_response_def)
    next
      case (JsonObject r)
      let ?ms = "messages_or_empty r"
      consider (empty) "?ms = []"
        | (no_content) "?ms \<noteq> []" "falsy (content (last ?ms))"
        | (no_env) "?ms \<noteq> []" "\<not> falsy (content (last ?ms))" "missing_env env"
        | (run) cur where "?ms \<noteq> []" "content (last ?ms) = Some cur" "cur \<noteq> []" "\<not> missing_env env"
        by (cases "content (last ?ms)") (auto simp: falsy_def)
      then show ?thesis
      proof cases
        case empty
        then show ?thesis
          by (simp add: Inr JsonObject POST_no_messages json_error_response_def)
      next
        case no_content
        then show ?thesis
          by (simp add: Inr JsonObject POST_no_content json_error_response_def)
      next
        case no_env
        then show ?thesis
          by (simp add: Inr JsonObject POST_missing_env json_error_response_def)
      next
        case run
        from POST_run_outcome [OF run, of up] show ?thesis
          unfolding Inr JsonObject
          by (auto simp: json_error_response_def stream_response_def)
      qed
    qed
  qed
  from 1 2 3 4 56 show ?thesis by blast
qed

theorem POST_status_taxonomy_witness:
  "fst (POST full_env ready_upstream (Inr JsonNonObject)) =
     Inr (json_error_response (lit ''No messages provided'') 400) \<and>
   messages_or_empty no_field_request = [] \<and>
   fst (POST full_env ready_upstream (Inr (JsonObject no_field_request))) =
     Inr (json_error_response (lit ''No messages provided'') 400) \<and>
   messages_or_empty no_content_request \<noteq> [] \<and>
   falsy (content (last (messages_or_empty no_content_request))) \<and>
   fst (POST full_env ready_upstream (Inr (JsonObject no_content_request))) =
     Inr (json_error_response (lit ''No current message content found'') 400) \<and>
   fst (POST full_env ready_upstream (Inl syntax_error)) =
     Inr (json_error_response (lit ''Unexpected end of JSON input'') 500) \<and>
   status (json_error_response (lit ''Unexpected end of JSON input'') 500 :: unit response) = 500 \<and>
   \<not> missing_env full_env \<and>
   (\<exists>e. ConsoleError OUTER_CATCH e \<in> set (snd (POST full_env ready_upstream (Inl syntax_error)))) \<and>
   (\<exists>e. body (json_error_response (lit ''Unexpected end of JSON input'') 500 :: unit response)
          = JsonError e)"
proof -
  let ?resp = "json_error_response (lit ''Unexpected end of JSON input'') 500 :: unit response"
  have a: "messages_or_empty no_field_request = []"
    by (simp add: messages_or_empty_def or_empty_def no_field_request_def)
  have b1: "messages_or_empty no_content_request \<noteq> []"
    by (simp add: messages_or_empty_def or_empty_def no_content_request_def)
  have b2: "falsy (content (last (messages_or_empty no_content_request)))"
    by (simp add: messages_or_empty_def or_empty_def no_content_request_def falsy_def)
  have f: "\<not> missing_env full_env"
    by (simp add: missing_env_def full_env_def falsy_def lit_def)
  have s: "status ?resp = 500"
    by (simp add: json_error_response_def)
  note t1 = POST_status_taxonomy [of full_env ready_upstream no_field_request
                                     "Some (lit ''Unexpected end of JSON input'')" "Inl syntax_error"]
  note t2 = POST_status_taxonomy [of full_env ready_upstream no_content_request
                                     "Some (lit ''Unexpected end of JSON input'')" "Inl syntax_error"]
  from t1 have r0: "fst (POST full_env ready_upstream (Inr JsonNonObject)) =
     Inr (json_error_response (lit ''No messages provided'') 400)"
    by blast
  from t1 a have r1: "fst (POST full_env ready_upstream (Inr (JsonObject no_field_request))) =
     Inr (json_error_response (lit ''No messages provided'') 400)"
    by blast
  from t2 b1 b2 have r2: "fst (POST full_env ready_upstream (Inr (JsonObject no_content_request))) =
     Inr (json_error_response (lit ''No current message content found'') 400)"
    by blast
  from t1 have "fst (POST full_env ready_upstream (Inl (Thrown (Some (lit ''Unexpected end of JSON input''))))) =
     Inr (json_error_response
            (if falsy (Some (lit ''Unexpected end of JSON input''))
             then lit ''An unexpected error occurred in the chat API.''
             else template_string (Some (lit ''Unexpected end of JSON input''))) 500)"
    by blast
  then have r3: "fst (POST full_env ready_upstream (Inl syntax_error)) = Inr ?resp"
    by (simp add: syntax_error_def falsy_def template_string_def lit_def)
  from t1 r3 s f
  have r4: "\<exists>e. ConsoleError OUTER_CATCH e \<in> set (snd (POST full_env ready_upstream (Inl syntax_error)))"
    by blast
  from t1 r3 s have r5: "\<exists>e. body ?resp = JsonError e"
    by blast
  from a b1 b2 f s r0 r1 r2 r3 r4 r5 show ?thesis by blast
qed

text \<open>
  The claim C9 as stated fails: a body that does not parse is answered with status 500,
  not 400.
\<close>

theorem malformed_body_counterexample:
  "fst (POST full_env ready_upstream (Inl syntax_error)) =
     Inr (json_error_response (lit ''Unexpected end of JSON input'') 500) \<and>
   status (json_error_response (lit ''Unexpected end of JSON input'') 500 :: unit response) = 500 \<and>
   status (json_error_response (lit ''Unexpected end of JSON input'') 500 :: unit response) \<noteq> 400"
  by (simp add: POST_def POST_try_def POST_catch_def read_message_def syntax_error_def
      json_error_response_def falsy_def template_string_def Let_def lit_def)

text \<open>
  Claim C10. The checks are made in a fixed order and the first that fails decides the
  response, whatever the later ones would say: no message gives 400 for every
  configuration; otherwise a last message without content gives 400 for every
  configuration; otherwise missing configuration gives 500. In particular a request
  with an empty list, or with no \<open>messages\<close> field, and missing configuration gets 400
  and not 500.
\<close>

theorem POST_check_order:
  "(messages_or_empty request = [] \<longrightarrow>
      fst (POST env up (Inr (JsonObject request))) =
        Inr (json_error_response (lit ''No messages provided'') 400)) \<and>
   (messages_or_empty request \<noteq> [] \<and> falsy (content (last (messages_or_empty request))) \<longrightarrow>
      fst (POST env up (Inr (JsonObject request))) =
        Inr (json_error_response (lit ''No current message content found'') 400)) \<and>
   (messages_or_empty request \<noteq> [] \<and> \<not> falsy (content (last (messages_or_empty request))) \<and>
      missing_env env \<longrightarrow>
      fst (POST env up (Inr (JsonObject request))) =
        Inr (json_error_response (lit ''Missing environment variables'') 500)) \<and>
   ((messages request = None \<or> messages request = Some []) \<and> missing_env env \<longrightarrow>
      (\<exists>resp. fst (POST env up (Inr (JsonObject request))) = Inr resp \<and>
         status resp = 400 \<and> status resp \<noteq> 500))"
proof (intro conjI impI; (elim conjE)?)
  assume "messages_or_empty request = []"
  then show "fst (POST env up (Inr (JsonObject request))) =
               Inr (json_error_response (lit ''No messages provided'') 400)"
    by (simp add: POST_no_messages)
next
  assume "messages_or_empty request \<noteq> []" "falsy (content (last (messages_or_empty request)))"
  then show "fst (POST env up (Inr (JsonObject request))) =
               Inr (json_error_response (lit ''No current message content found'') 400)"
    by (simp add: POST_no_content)
next
  assume "messages_or_empty request \<noteq> []" "\<not> falsy (content (last (messages_or_empty request)))"
    "missing_env env"
  then show "fst (POST env up (Inr (JsonObject request))) =
               Inr (json_error_response (lit ''Missing environment variables'') 500)"
    by (simp add: POST_missing_env)
next
  assume "messages request = None \<or> messages request = Some []"
  then have "messages_or_empty request = []"
    by (auto simp: messages_or_empty_def or_empty_def)
  then have p: "POST env up (Inr (JsonObject request)) =
                  (Inr (json_error_response (lit ''No messages provided'') 400), [])"
    by (rule POST_no_messages)
  show "\<exists>resp. fst (POST env up (Inr (JsonObject request))) = Inr resp \<and>
         status resp = 400 \<and> status resp \<noteq> 500"
    by (simp add: p json_error_response_def)
qed

theorem POST_check_order_witness:
  "messages_or_empty no_field_request = [] \<and> messages no_field_request = None \<and>
   missing_env empty_env \<and>
   fst (POST empty_env ready_upstream (Inr (JsonObject no_field_request))) =
     Inr (json_error_response (lit ''No messages provided'') 400) \<and>
   (\<exists>resp. fst (POST empty_env ready_upstream (Inr (JsonObject no_field_request))) = Inr resp \<and>
      status resp = 400) \<and>
   messages_or_empty no_content_request \<noteq> [] \<and>
   falsy (content (last (messages_or_empty no_content_request))) \<and>
   fst (POST empty_env ready_upstream (Inr (JsonObject no_content_request))) =
     Inr (json_error_response (lit ''No current message content found'') 400) \<and>
   messages_or_empty user_request \<noteq> [] \<and>
   \<not> falsy (content (last (messages_or_empty user_request))) \<and>
   fst (POST empty_env ready_upstream (Inr (JsonObject user_request))) =
     Inr (json_error_response (lit ''Missing environment variables'') 500)"
proof -
  have a1: "messages_or_empty no_field_request = []"
    by (simp add: messages_or_empty_def or_empty_def no_field_request_def)
  have a2: "messages no_field_request = None"
    by (simp add: no_field_request_def)
  have e: "missing_env empty_env"
    by (simp add: missing_env_def empty_env_def falsy_def)
  have b1: "messages_or_empty no_content_request \<noteq> []"
    by (simp add: messages_or_empty_def or_empty_def no_content_request_def)
  have b2: "falsy (content (last (messages_or_empty no_content_request)))"
    by (simp add: messages_or_empty_def or_empty_def no_content_request_def falsy_def)
  have c1: "messages_or_empty user_request \<noteq> []"
    by (simp add: messages_or_empty_def or_empty_def user_request_def)
  have c2: "\<not> falsy (content (last (messages_or_empty user_request)))"
    by (simp add: messages_or_empty_def or_empty_def user_request_def user_turn_def falsy_def lit_def)
  from POST_check_order [of no_field_request empty_env ready_upstream] a1 a2 e
  have r1: "fst (POST empty_env ready_upstream (Inr (JsonObject no_field_request))) =
              Inr (json_error_response (lit ''No messages provided'') 400)"
    and r2: "\<exists>resp. fst (POST empty_env ready_upstream (Inr (JsonObject no_field_request))) = Inr resp \<and>
      status resp = 400"
    by blast+
  from POST_check_order [of no_content_request empty_env ready_upstream] b1 b2
  have r3: "fst (POST empty_env ready_upstream (Inr (JsonObject no_content_request))) =
              Inr (json_error_response (lit ''No current message content found'') 400)"
    by blast
  from POST_check_order [of user_request empty_env ready_upstream] c1 c2 e
  have r4: "fst (POST empty_env ready_upstream (Inr (JsonObject user_request))) =
              Inr (json_error_response (lit ''Missing environment variables'') 500)"
    by blast
  from a1 a2 e b1 b2 c1 c2 r1 r2 r3 r4 show ?thesis by blast
qed

end
